theory Spec2Isabelle
  imports Complex_Main "HOL-Library.Multiset"
begin

section \<open>The \<open>precios\<close> table\<close>

text \<open>
  The table declaration of the source, column by column:
  \<^verbatim>\<open>
  export const precios = sqliteTable("precios", {
    id: integer("id", { mode: "number" }).primaryKey({ autoIncrement: true }),
    ean: text("ean").notNull(),
    fetchedAt: integer("fetched_at", { mode: "timestamp" }).notNull(),
    precioCentavos: integer("precio_centavos"),
    inStock: integer("in_stock", { mode: "boolean" }),
    url: text("url"),
  });
  \<close>
  A column is its key in the row object, its SQL name, its type with the
  mode drizzle reads it in, and the two modifiers the declaration uses.
\<close>

datatype column_type = IntegerNumber | IntegerTimestamp | IntegerBoolean | TextColumn

record column =
  field :: string
  sql_name :: string
  col_type :: column_type
  not_null :: bool
  auto_increment_key :: bool

definition precios_columns :: "column list" where
  "precios_columns =
    [\<lparr>field = ''id'', sql_name = ''id'', col_type = IntegerNumber,
        not_null = False, auto_increment_key = True\<rparr>,
     \<lparr>field = ''ean'', sql_name = ''ean'', col_type = TextColumn,
        not_null = True, auto_increment_key = False\<rparr>,
     \<lparr>field = ''fetchedAt'', sql_name = ''fetched_at'', col_type = IntegerTimestamp,
        not_null = True, auto_increment_key = False\<rparr>,
     \<lparr>field = ''precioCentavos'', sql_name = ''precio_centavos'', col_type = IntegerNumber,
        not_null = False, auto_increment_key = False\<rparr>,
     \<lparr>field = ''inStock'', sql_name = ''in_stock'', col_type = IntegerBoolean,
        not_null = False, auto_increment_key = False\<rparr>,
     \<lparr>field = ''url'', sql_name = ''url'', col_type = TextColumn,
        not_null = False, auto_increment_key = False\<rparr>]"

text \<open>
  A row as the page's \<open>load\<close> function reads it. The timestamp is the
  integer the column stores; a nullable column is an \<open>option\<close>. The last
  field, \<open>p_name\<close>, is what \<open>load\<close> reads as \<open>p.name\<close>: the table
  declaration above lists no such column, so the field stands for whatever
  the row object carries under that key (\<open>None\<close> when it carries nothing).
\<close>

record precio_row =
  p_id :: int
  p_ean :: string
  p_fetchedAt :: int
  p_precioCentavos :: "int option"
  p_inStock :: "bool option"
  p_url :: "string option"
  p_name :: "string option"

section \<open>The product page's \<open>load\<close>\<close>

text \<open>
  \<^verbatim>\<open>
  const q = db.select().from(precios)
    .where(eq(precios.ean, params.ean))
    .orderBy(precios.fetchedAt);
  const res = await q;
  \<close>
  The database engine is outside the source. What the query text fixes of
  its answer is: the rows of the table whose \<open>ean\<close> is the requested one,
  each as often as it is stored, in ascending order of \<open>fetched_at\<close>.
  \<open>query_answer tbl e res\<close> says that \<open>res\<close> is such an answer for the
  table contents \<open>tbl\<close>; the order of rows with equal \<open>fetched_at\<close> is
  the engine's, modelled by \<open>sqlite_select\<close> below.
\<close>

definition query_answer :: "precio_row list \<Rightarrow> string \<Rightarrow> precio_row list \<Rightarrow> bool" where
  "query_answer tbl e res \<longleftrightarrow>
     mset res = mset (filter (\<lambda>p. p_ean p = e) tbl) \<and> sorted (map p_fetchedAt res)"

text \<open>JavaScript truthiness of a \<open>string | null\<close> value: neither null nor empty.\<close>

fun truthy :: "string option \<Rightarrow> bool" where
  "truthy None = False"
| "truthy (Some s) = (s \<noteq> [])"

text \<open>\<open>Array.prototype.findLast\<close>: the last element the predicate accepts.\<close>

definition findLast :: "('a \<Rightarrow> bool) \<Rightarrow> 'a list \<Rightarrow> 'a option" where
  "findLast f xs = List.find f (rev xs)"

datatype http_error = HttpError nat string

record page_data =
  precios :: "precio_row list"
  meta :: "precio_row option"

text \<open>
  \<^verbatim>\<open>
  const res = await q;
  if (res.length === 0) return error(404, "Not Found");
  const meta = res.findLast((p) => p.name);
  return { precios: res, meta };
  \<close>
  The first argument is the engine's answer to the query \<open>q\<close> as a function
  of the requested EAN.
\<close>

definition load :: "(string \<Rightarrow> precio_row list) \<Rightarrow> string \<Rightarrow> http_error + page_data" where
  "load q params_ean =
     (let res = q params_ean in
      if length res = 0 then Inl (HttpError 404 ''Not Found'')
      else Inr \<lparr>precios = res, meta = findLast (\<lambda>p. truthy (p_name p)) res\<rparr>)"

text \<open>Two rows of one product fetched in the same second, used as concrete inputs.\<close>

definition row_a :: precio_row where
  "row_a = \<lparr>p_id = 1, p_ean = ''7790001'', p_fetchedAt = 1700000000,
     p_precioCentavos = Some 19990, p_inStock = Some True, p_url = None,
     p_name = Some ''Yerba''\<rparr>"

definition row_b :: precio_row where
  "row_b = \<lparr>p_id = 2, p_ean = ''7790001'', p_fetchedAt = 1700000000,
     p_precioCentavos = Some 20990, p_inStock = None, p_url = None,
     p_name = None\<rparr>"

definition row_c :: precio_row where
  "row_c = \<lparr>p_id = 3, p_ean = ''7790002'', p_fetchedAt = 1600000000,
     p_precioCentavos = None, p_inStock = Some False, p_url = None,
     p_name = Some ''Fideos''\<rparr>"


section \<open>The parsed document and the extraction toolkit\<close>

text \<open>
  A JSON value as \<open>JSON.parse\<close> returns it. An object is the list of its
  own properties, one entry per key, read by key with \<open>map_of\<close>.
\<close>

datatype json =
    JNull
  | JBool bool
  | JNum rat
  | JStr string
  | JArr "json list"
  | JObj "(string \<times> json) list"

text \<open>
  Modelled from the spec: the module \<open>./common.js\<close> (\<open>getMetaProp\<close>,
  \<open>getProductJsonLd\<close>, \<open>priceFromMeta\<close>) and linkedom's \<open>parseHTML\<close>
  are not among the sources. A parsed document is what the toolkit reads of
  it: the meta tags as (property, content) pairs in document order, the
  content of the price-bearing meta property if the page has one (the spec
  does not name it), and the product JSON-LD script: absent, present with
  text that is not JSON, or present with its parsed payload.
\<close>

datatype ld_script = NoScript | Unparseable | Payload json

record document =
  metas :: "(string \<times> string) list"
  price_meta :: "string option"
  product_ld :: ld_script

text \<open>
  What a call can throw: \<open>new Error(message)\<close> as the extractor raises it,
  the \<open>TypeError\<close> of a property read on \<open>undefined\<close> or \<open>null\<close>, and
  the two toolkit errors the spec names.
\<close>

datatype error = JsError string | TypeError | MalformedStructuredData | PriceParseError

text \<open>
  Modelled from the spec: \<open>getMetaProp\<close> of \<open>./common.js\<close>. "Looks up a
  single meta-tag's content by its property/name attribute. Returns absent
  (not an error) when the tag is missing."
\<close>

definition getMetaProp :: "document \<Rightarrow> string \<Rightarrow> string option" where
  "getMetaProp doc prop = map_of (metas doc) prop"

text \<open>
  Modelled from the spec: the decimal currency amount that \<open>priceFromMeta\<close>
  of \<open>./common.js\<close> parses. A valid decimal number is an optional minus
  sign, one or more digits, and optionally a point followed by one or more
  digits. It is read as a mantissa \<open>m\<close> and a scale \<open>k\<close>, its value being
  \<open>m / 10 ^ k\<close>.
\<close>

definition is_digit :: "char \<Rightarrow> bool" where
  "is_digit c \<longleftrightarrow> c \<in> set ''0123456789''"

definition digit_value :: "char \<Rightarrow> int" where
  "digit_value c = of_char c - 48"

definition digits_value :: "string \<Rightarrow> int" where
  "digits_value ds = foldl (\<lambda>a c. 10 * a + digit_value c) 0 ds"

definition parse_decimal :: "string \<Rightarrow> (int \<times> nat) option" where
  "parse_decimal s =
     (let neg = (s \<noteq> [] \<and> hd s = CHR ''-'');
          body = (if neg then tl s else s);
          ip = takeWhile (\<lambda>c. c \<noteq> CHR ''.'') body;
          rest = dropWhile (\<lambda>c. c \<noteq> CHR ''.'') body;
          fp = tl rest;
          sg = (if neg then - 1 else 1)
      in if ip = [] \<or> \<not> list_all is_digit ip then None
         else if rest = [] then Some (sg * digits_value ip, 0)
         else if fp = [] \<or> \<not> list_all is_digit fp then None
         else Some (sg * digits_value (ip @ fp), length fp))"

text \<open>
  Modelled from the spec: "converts to integer minor units (multiply by 100,
  round to nearest integer)". For the amount \<open>m / 10 ^ k\<close> this is
  \<open>\<lfloor>100 * m / 10 ^ k + 1/2\<rfloor>\<close>, in integer arithmetic.
\<close>

fun to_centavos :: "int \<times> nat \<Rightarrow> int" where
  "to_centavos (m, k) = (200 * m + 10 ^ k) div (2 * 10 ^ k)"

text \<open>
  Modelled from the spec: \<open>priceFromMeta\<close> of \<open>./common.js\<close>. "Reads a
  price-bearing meta property, parses it as a decimal currency amount, and
  converts to integer minor units. Fails with PriceParseError if the value
  is not a valid decimal number." A page that declares no price yields an
  absent price (the spec's \<open>precioCentavos\<close> "may be absent if the page
  declares no price"; \<open>PriceParseError\<close> is for a "price field present but
  not a valid decimal").
\<close>

definition priceFromMeta :: "document \<Rightarrow> error + int option" where
  "priceFromMeta doc =
     (case price_meta doc of
        None \<Rightarrow> Inr None
      | Some s \<Rightarrow>
          (case parse_decimal s of
             None \<Rightarrow> Inl PriceParseError
           | Some d \<Rightarrow> Inr (Some (to_centavos d))))"

text \<open>
  Modelled from the spec: \<open>getProductJsonLd\<close> of \<open>./common.js\<close>. "Locates
  the embedded JSON-LD script node tagged as product data, parses its JSON
  payload, and returns the structured object. Fails with a
  MalformedStructuredData error if no such node exists or its content is not
  parseable JSON."
\<close>

definition getProductJsonLd :: "document \<Rightarrow> error + json" where
  "getProductJsonLd doc =
     (case product_ld doc of
        Payload ld \<Rightarrow> Inr ld
      | _ \<Rightarrow> Inl MalformedStructuredData)"

section \<open>The dia extractor\<close>

text \<open>
  Property reads of JavaScript on a value that is a JSON value or
  \<open>undefined\<close> (\<open>None\<close>). \<open>get_prop v k\<close> is \<open>v.k\<close> for the two names the
  extractor reads, \<open>offers\<close> and \<open>availability\<close>: reading them throws a
  TypeError on \<open>undefined\<close> and \<open>null\<close>, looks the key up in an object,
  and is \<open>undefined\<close> on an array, a string, a number or a boolean.
  \<open>element0 v\<close> is \<open>v[0]\<close>: the first element of an array, the first
  character of a string, the property \<open>"0"\<close> of an object.
\<close>

fun get_prop :: "json option \<Rightarrow> string \<Rightarrow> error + json option" where
  "get_prop None k = Inl TypeError"
| "get_prop (Some JNull) k = Inl TypeError"
| "get_prop (Some (JObj kvs)) k = Inr (map_of kvs k)"
| "get_prop (Some v) k = Inr None"

fun element0 :: "json option \<Rightarrow> error + json option" where
  "element0 None = Inl TypeError"
| "element0 (Some JNull) = Inl TypeError"
| "element0 (Some (JArr xs)) = Inr (case xs of [] \<Rightarrow> None | x # _ \<Rightarrow> Some x)"
| "element0 (Some (JStr s)) = Inr (case s of [] \<Rightarrow> None | c # _ \<Rightarrow> Some (JStr [c]))"
| "element0 (Some (JObj kvs)) = Inr (map_of kvs ''0'')"
| "element0 (Some v) = Inr None"

text \<open>
  \<^verbatim>\<open>ld.offers.offers[0].availability === "http://schema.org/InStock"\<close>,
  read left to right; the first read that throws ends the evaluation.
\<close>

definition availability_in_stock :: "json \<Rightarrow> error + bool" where
  "availability_in_stock ld =
     (case get_prop (Some ld) ''offers'' of
        Inl err \<Rightarrow> Inl err
      | Inr a \<Rightarrow>
          (case get_prop a ''offers'' of
             Inl err \<Rightarrow> Inl err
           | Inr b \<Rightarrow>
               (case element0 b of
                  Inl err \<Rightarrow> Inl err
                | Inr c \<Rightarrow>
                    (case get_prop c ''availability'' of
                       Inl err \<Rightarrow> Inl err
                     | Inr v \<Rightarrow> Inr (v = Some (JStr ''http://schema.org/InStock''))))))"

datatype html = HtmlText string | HtmlBuffer "nat list"

record precioish =
  ean :: string
  precioCentavos :: "int option"
  inStock :: bool

text \<open>
  The message of the extractor's error ("I did not find the ean"); the
  character after \<open>encontr\<close> is the code unit 233, an accented e.
\<close>

definition no_ean_message :: string where
  "no_ean_message = ''No encontr'' @ [CHR 0xE9] @ '' el ean''"

text \<open>
  \<^verbatim>\<open>
  export function getDiaProduct(html: string | Buffer): Precioish {
    const dom = parseHTML(html);
    const ean = getMetaProp(dom, "product:retailer_item_id");
    if (!ean) throw new Error("No encontr... el ean");
    const precioCentavos = priceFromMeta(dom);
    const ld = getProductJsonLd(dom);
    const inStock =
      ld.offers.offers[0].availability === "http://schema.org/InStock";
    return { ean, precioCentavos, inStock };
  }
  \<close>
  The parser is a parameter, and \<open>doc\<close> is the source's \<open>dom\<close>. The
  test \<open>!ean\<close> holds when \<open>getMetaProp\<close> returns nothing and when it
  returns the empty string. A thrown error is \<open>Inl\<close>; the statements run
  in the source's order, so the first that throws decides the error.
\<close>

definition getDiaProduct :: "(html \<Rightarrow> document) \<Rightarrow> html \<Rightarrow> error + precioish" where
  "getDiaProduct parseHTML h =
     (let doc = parseHTML h in
      case getMetaProp doc ''product:retailer_item_id'' of
        None \<Rightarrow> Inl (JsError no_ean_message)
      | Some e \<Rightarrow>
          if e = [] then Inl (JsError no_ean_message)
          else
            (case priceFromMeta doc of
               Inl err \<Rightarrow> Inl err
             | Inr pc \<Rightarrow>
                 (case getProductJsonLd doc of
                    Inl err \<Rightarrow> Inl err
                  | Inr ld \<Rightarrow>
                      (case availability_in_stock ld of
                         Inl err \<Rightarrow> Inl err
                       | Inr s \<Rightarrow> Inr \<lparr>ean = e, precioCentavos = pc, inStock = s\<rparr>))))"

text \<open>
  The value of the path \<open>offers.offers\<close> of the JSON-LD object, read without
  throwing: \<open>None\<close> when a step of the path is not there.
\<close>

fun field_of :: "json option \<Rightarrow> string \<Rightarrow> json option" where
  "field_of (Some (JObj kvs)) k = map_of kvs k"
| "field_of v k = None"

definition offers_path :: "json \<Rightarrow> json option" where
  "offers_path ld = field_of (field_of (Some ld) ''offers'') ''offers''"

fun is_nonempty_array :: "json option \<Rightarrow> bool" where
  "is_nonempty_array (Some (JArr (x # xs))) = True"
| "is_nonempty_array v = False"

fun first_offer_is_object :: "json option \<Rightarrow> bool" where
  "first_offer_is_object (Some (JArr (JObj kvs # xs))) = True"
| "first_offer_is_object v = False"

text \<open>
  The retailer's known page shape: the EAN meta property with a non-empty
  content, a price meta that is absent or a valid decimal number, and a
  product JSON-LD whose \<open>offers.offers\<close> is an array that starts with an
  offer object.
\<close>

definition dia_known_shape :: "document \<Rightarrow> bool" where
  "dia_known_shape doc \<longleftrightarrow>
     truthy (getMetaProp doc ''product:retailer_item_id'') \<and>
     (case price_meta doc of
        None \<Rightarrow> True
      | Some s \<Rightarrow> parse_decimal s \<noteq> None) \<and>
     (case product_ld doc of
        Payload ld \<Rightarrow> first_offer_is_object (offers_path ld)
      | _ \<Rightarrow> False)"

text \<open>Concrete pages, used as inputs.\<close>

definition in_stock_ld :: json where
  "in_stock_ld =
     JObj [(''@type'', JStr ''Product''),
           (''offers'', JObj [(''offers'',
              JArr [JObj [(''availability'', JStr ''http://schema.org/InStock'')]])])]"

definition fixture_page :: document where
  "fixture_page =
     \<lparr>metas = [(''og:type'', ''product''), (''product:retailer_item_id'', ''7790001'')],
      price_meta = Some ''199.90'',
      product_ld = Payload in_stock_ld\<rparr>"

definition no_ean_page :: document where
  "no_ean_page =
     \<lparr>metas = [(''og:type'', ''product'')],
      price_meta = Some ''199.90'',
      product_ld = Payload in_stock_ld\<rparr>"

definition negative_price_page :: document where
  "negative_price_page =
     \<lparr>metas = [(''og:type'', ''product''), (''product:retailer_item_id'', ''7790001'')],
      price_meta = Some ''-5.00'',
      product_ld = Payload in_stock_ld\<rparr>"

definition string_offers_ld :: json where
  "string_offers_ld = JObj [(''offers'', JObj [(''offers'', JStr ''x'')])]"

definition string_offers_page :: document where
  "string_offers_page =
     \<lparr>metas = [(''product:retailer_item_id'', ''7790001'')],
      price_meta = Some ''199.90'',
      product_ld = Payload string_offers_ld\<rparr>"

definition no_offers_page :: document where
  "no_offers_page =
     \<lparr>metas = [(''product:retailer_item_id'', ''7790001'')],
      price_meta = None,
      product_ld = Payload (JObj [(''offers'', JObj [(''offers'', JArr [])])])\<rparr>"

text \<open>A parser that yields a given document, to run the extractor on a concrete page.\<close>

definition parse_as :: "document \<Rightarrow> html \<Rightarrow> document" where
  "parse_as doc h = doc"

text \<open>
  A later row of the first product whose name is the empty string, a table
  holding the four rows in no particular order, and an engine that sorts
  the matching rows of a list stably.
\<close>

definition row_d :: precio_row where
  "row_d = \<lparr>p_id = 4, p_ean = ''7790001'', p_fetchedAt = 1700003600,
     p_precioCentavos = Some 21990, p_inStock = Some True, p_url = None,
     p_name = Some []\<rparr>"

definition history_table :: "precio_row list" where
  "history_table = [row_d, row_a, row_c, row_b]"

definition stable_engine :: "precio_row list \<Rightarrow> string \<Rightarrow> precio_row list" where
  "stable_engine tbl e = sort_key p_fetchedAt (filter (\<lambda>p. p_ean p = e) tbl)"




section \<open>Facts about the query and \<open>findLast\<close>\<close>

lemma query_answer_set:
  "query_answer tbl e res \<Longrightarrow> set res = {p \<in> set tbl. p_ean p = e}"
proof -
  assume "query_answer tbl e res"
  then have "mset res = mset (filter (\<lambda>p. p_ean p = e) tbl)"
    by (simp add: query_answer_def)
  then have "set res = set (filter (\<lambda>p. p_ean p = e) tbl)"
    by (rule mset_eq_setD)
  then show ?thesis by simp
qed

lemma query_answer_empty_iff:
  "query_answer tbl e res \<Longrightarrow> res = [] \<longleftrightarrow> \<not> (\<exists>p \<in> set tbl. p_ean p = e)"
  using query_answer_set [of tbl e res] by (cases res) auto

text \<open>A stable sort of the matching rows is one possible answer, for every table.\<close>

lemma stable_engine_answer: "query_answer tbl e (stable_engine tbl e)"
  by (simp add: stable_engine_def query_answer_def)

lemma stable_engine_history: "stable_engine history_table ''7790001'' = [row_a, row_b, row_d]"
  by (simp add: stable_engine_def history_table_def row_a_def row_b_def row_c_def row_d_def)

lemma stable_engine_unknown: "stable_engine history_table ''0000000'' = []"
  by (simp add: stable_engine_def history_table_def row_a_def row_b_def row_c_def row_d_def)

lemma load_history_example:
  "load (stable_engine history_table) ''7790001'' =
     Inr \<lparr>precios = [row_a, row_b, row_d], meta = Some row_a\<rparr>"
  by (simp add: load_def Let_def stable_engine_history findLast_def row_a_def row_b_def row_d_def)

lemma findLast_None_iff: "findLast f xs = None \<longleftrightarrow> \<not> (\<exists>x \<in> set xs. f x)"
  by (auto simp: findLast_def find_None_iff)

lemma findLast_Some_split:
  "findLast f xs = Some r \<Longrightarrow> \<exists>ys zs. xs = ys @ r # zs \<and> f r \<and> (\<forall>z \<in> set zs. \<not> f z)"
proof (induction xs rule: rev_induct)
  case Nil
  then show ?case by (simp add: findLast_def)
next
  case (snoc x xs)
  show ?case
  proof (cases "f x")
    case True
    with snoc.prems have "r = x" by (simp add: findLast_def)
    with True have "xs @ [x] = xs @ r # [] \<and> f r \<and> (\<forall>z \<in> set []. \<not> f z)" by simp
    then show ?thesis by blast
  next
    case False
    with snoc.prems have "findLast f xs = Some r" by (simp add: findLast_def)
    from snoc.IH [OF this] obtain ys zs
      where "xs = ys @ r # zs" "f r" "\<forall>z \<in> set zs. \<not> f z" by blast
    with False have "xs @ [x] = ys @ r # (zs @ [x]) \<and> f r \<and> (\<forall>z \<in> set (zs @ [x]). \<not> f z)"
      by simp
    then show ?thesis by blast
  qed
qed

lemma sorted_map_split_le:
  "sorted (map k (ys @ r # zs)) \<Longrightarrow> y \<in> set ys \<Longrightarrow> k y \<le> k r"
  by (auto simp: sorted_append)







section \<open>Facts about the toolkit and the extractor\<close>

lemma to_centavos_nearest: "2 * \<bar>100 * m - to_centavos (m, k) * 10 ^ k\<bar> \<le> 10 ^ k"
proof -
  define P :: int where "P = 10 ^ k"
  define c where "c = (200 * m + P) div (2 * P)"
  define r where "r = (200 * m + P) mod (2 * P)"
  have P: "0 < P" by (simp add: P_def)
  have eq: "200 * m + P = 2 * (c * P) + r"
    unfolding c_def r_def using div_mult_mod_eq [of "200 * m + P" "2 * P"] by (simp add: algebra_simps)
  have r: "0 \<le> r" "r < 2 * P" using P by (simp_all add: r_def)
  define t where "t = c * P"
  have "200 * m + P = 2 * t + r" using eq by (simp add: t_def)
  with r have "2 * \<bar>100 * m - t\<bar> \<le> P" by arith
  then have "2 * \<bar>100 * m - c * P\<bar> \<le> P" by (simp add: t_def)
  then show ?thesis by (simp add: P_def c_def)
qed

lemma to_centavos_nonneg: "0 \<le> m \<Longrightarrow> 0 \<le> to_centavos (m, k)"
  by (simp add: pos_imp_zdiv_nonneg_iff)

lemma offers_path_Some:
  assumes "offers_path ld = Some v"
  shows "\<exists>a. get_prop (Some ld) ''offers'' = Inr (Some a) \<and> get_prop (Some a) ''offers'' = Inr (Some v)"
proof -
  from assms obtain kvs where ld: "ld = JObj kvs"
    by (cases ld) (simp_all add: offers_path_def)
  with assms obtain a where a: "map_of kvs ''offers'' = Some a"
    by (cases "map_of kvs ''offers''") (simp_all add: offers_path_def)
  with assms ld obtain kvs' where a': "a = JObj kvs'"
    by (cases a) (simp_all add: offers_path_def)
  with assms ld a have "map_of kvs' ''offers'' = Some v" by (simp add: offers_path_def)
  with ld a a' show ?thesis by simp
qed

lemma availability_of_array:
  assumes "offers_path ld = Some (JArr (x # xs))"
  shows "availability_in_stock ld =
           (case get_prop (Some x) ''availability'' of
              Inl err \<Rightarrow> Inl err
            | Inr v \<Rightarrow> Inr (v = Some (JStr ''http://schema.org/InStock'')))"
proof -
  from offers_path_Some [OF assms] obtain a
    where "get_prop (Some ld) ''offers'' = Inr (Some a)"
      and "get_prop (Some a) ''offers'' = Inr (Some (JArr (x # xs)))" by blast
  then show ?thesis by (simp add: availability_in_stock_def)
qed

lemma get_prop_error: "get_prop v k = Inl err \<Longrightarrow> err = TypeError"
  by (cases "(v, k)" rule: get_prop.cases) simp_all

lemma element0_error: "element0 v = Inl err \<Longrightarrow> err = TypeError"
  by (cases v rule: element0.cases) simp_all

lemma availability_error: "availability_in_stock ld = Inl err \<Longrightarrow> err = TypeError"
  by (auto simp: availability_in_stock_def split: sum.splits dest: get_prop_error element0_error)

lemma availability_by_path:
  "availability_in_stock ld =
     (case element0 (offers_path ld) of
        Inl err \<Rightarrow> Inl err
      | Inr c \<Rightarrow>
          (case get_prop c ''availability'' of
             Inl err \<Rightarrow> Inl err
           | Inr v \<Rightarrow> Inr (v = Some (JStr ''http://schema.org/InStock''))))"
proof (cases ld)
  case (JObj kvs)
  show ?thesis
  proof (cases "map_of kvs ''offers''")
    case None
    with JObj show ?thesis by (simp add: availability_in_stock_def offers_path_def)
  next
    case (Some a)
    with JObj show ?thesis
      by (cases a) (simp_all add: availability_in_stock_def offers_path_def)
  qed
qed (simp_all add: availability_in_stock_def offers_path_def)

lemma get_prop_ok_iff: "(\<exists>r. get_prop v k = Inr r) \<longleftrightarrow> (\<exists>j. v = Some j \<and> j \<noteq> JNull)"
  by (cases "(v, k)" rule: get_prop.cases) simp_all

lemma availability_ok_iff:
  "(\<exists>s. availability_in_stock ld = Inr s) \<longleftrightarrow>
   (\<exists>v. element0 (offers_path ld) = Inr (Some v) \<and> v \<noteq> JNull)"
proof (cases "element0 (offers_path ld)")
  case (Inl err)
  then show ?thesis by (simp add: availability_by_path)
next
  case (Inr c)
  have "(\<exists>s. availability_in_stock ld = Inr s) \<longleftrightarrow> (\<exists>r. get_prop c ''availability'' = Inr r)"
    using Inr by (auto simp: availability_by_path split: sum.splits)
  also have "\<dots> \<longleftrightarrow> (\<exists>j. c = Some j \<and> j \<noteq> JNull)" by (rule get_prop_ok_iff)
  finally show ?thesis using Inr by auto
qed

lemma getDiaProduct_at_access:
  assumes "getMetaProp (parseHTML h) ''product:retailer_item_id'' = Some e"
    and "e \<noteq> []"
    and "priceFromMeta (parseHTML h) = Inr pc"
    and "product_ld (parseHTML h) = Payload ld"
  shows "getDiaProduct parseHTML h =
           (case availability_in_stock ld of
              Inl err \<Rightarrow> Inl err
            | Inr s \<Rightarrow> Inr \<lparr>ean = e, precioCentavos = pc, inStock = s\<rparr>)"
  using assms by (simp add: getDiaProduct_def Let_def getProductJsonLd_def)

lemma truthy_Some: "truthy v \<Longrightarrow> \<exists>e. v = Some e \<and> e \<noteq> []"
  by (cases v) simp_all

lemma fixture_parse_decimal: "parse_decimal ''199.90'' = Some (19990, 2)"
  by (simp add: parse_decimal_def is_digit_def digits_value_def digit_value_def)

lemma to_centavos_nonneg_iff: "0 \<le> to_centavos (m, k) \<longleftrightarrow> - (10 ^ k) \<le> 200 * m"
proof -
  have "0 \<le> to_centavos (m, k) \<longleftrightarrow> 0 \<le> 200 * m + 10 ^ k"
    by (simp add: pos_imp_zdiv_nonneg_iff)
  then show ?thesis by auto
qed

lemma negative_parse_decimal: "parse_decimal ''-5.00'' = Some (- 500, 2)"
  by (simp add: parse_decimal_def is_digit_def digits_value_def digit_value_def)

lemma first_offer_object_available:
  assumes "first_offer_is_object v"
  shows "\<exists>kvs xs. v = Some (JArr (JObj kvs # xs))"
  using assms by (cases v rule: first_offer_is_object.cases) simp_all

section \<open>The history query\<close>

text \<open>
  Claim C1. The \<open>meta\<close> that \<open>load\<close> returns is a row of the requested
  EAN with a non-empty name whose \<open>fetchedAt\<close> is not exceeded by any
  other such row, every row after it in the history having no name or an
  empty one; it is absent when the EAN has no row with a non-empty name.
  When the EAN has no row at all, \<open>load\<close> returns the error and no
  metadata.
\<close>

theorem load_meta_latest_named:
  assumes "query_answer tbl e (q e)"
  shows "case load q e of
           Inl err \<Rightarrow> \<not> (\<exists>p \<in> set tbl. p_ean p = e)
         | Inr d \<Rightarrow>
             (case meta d of
                None \<Rightarrow> \<not> (\<exists>p \<in> set tbl. p_ean p = e \<and> truthy (p_name p))
              | Some r \<Rightarrow>
                  r \<in> set tbl \<and> p_ean r = e \<and> truthy (p_name r) \<and>
                  (\<forall>p \<in> set tbl. p_ean p = e \<and> truthy (p_name p) \<longrightarrow> p_fetchedAt p \<le> p_fetchedAt r) \<and>
                  (\<exists>ys zs. precios d = ys @ r # zs \<and> (\<forall>z \<in> set zs. \<not> truthy (p_name z))))"
proof (cases "q e = []")
  case True
  with assms query_answer_empty_iff [of tbl e "q e"] show ?thesis
    by (simp add: load_def Let_def)
next
  case False
  let ?f = "\<lambda>p. truthy (p_name p)"
  have S: "set (q e) = {p \<in> set tbl. p_ean p = e}"
    using assms by (rule query_answer_set)
  have L: "load q e = Inr \<lparr>precios = q e, meta = findLast ?f (q e)\<rparr>"
    using False by (simp add: load_def Let_def)
  show ?thesis
  proof (cases "findLast ?f (q e)")
    case None
    then have "\<not> (\<exists>x \<in> set (q e). ?f x)" by (simp add: findLast_None_iff)
    with S have "\<not> (\<exists>p \<in> set tbl. p_ean p = e \<and> truthy (p_name p))" by blast
    with L None show ?thesis by simp
  next
    case (Some r)
    from findLast_Some_split [OF Some] obtain ys zs
      where sp: "q e = ys @ r # zs" "?f r" "\<forall>z \<in> set zs. \<not> ?f z" by blast
    have srt: "sorted (map p_fetchedAt (ys @ r # zs))"
      using assms sp(1) by (simp add: query_answer_def)
    have mem: "r \<in> set tbl" "p_ean r = e" using S sp(1) by auto
    have mx: "p_fetchedAt p \<le> p_fetchedAt r"
      if "p \<in> set tbl" "p_ean p = e" "truthy (p_name p)" for p
    proof -
      from that S have "p \<in> set (q e)" by simp
      with sp(1) have "p \<in> set ys \<or> p = r \<or> p \<in> set zs" by auto
      with that(3) sp(3) have "p \<in> set ys \<or> p = r" by blast
      then show ?thesis using sorted_map_split_le [OF srt] by auto
    qed
    have "\<exists>ys zs. q e = ys @ r # zs \<and> (\<forall>z \<in> set zs. \<not> truthy (p_name z))"
      using sp by blast
    with L Some mem sp(2) mx show ?thesis by simp
  qed
qed

theorem load_meta_latest_named_witness:
  "query_answer history_table ''7790001'' (stable_engine history_table ''7790001'') \<and>
   load (stable_engine history_table) ''7790001'' =
     Inr \<lparr>precios = [row_a, row_b, row_d], meta = Some row_a\<rparr> \<and>
   row_a \<in> set history_table \<and> p_ean row_a = ''7790001'' \<and> truthy (p_name row_a) \<and>
   \<not> truthy (p_name row_b) \<and> \<not> truthy (p_name row_d) \<and>
   p_fetchedAt row_a \<le> p_fetchedAt row_d"
proof -
  have h: "query_answer history_table ''7790001'' (stable_engine history_table ''7790001'')"
    by (rule stable_engine_answer)
  note l = load_history_example
  from load_meta_latest_named [of history_table "''7790001''" "stable_engine history_table", OF h]
  have m: "row_a \<in> set history_table \<and> p_ean row_a = ''7790001'' \<and> truthy (p_name row_a)"
    by (simp add: l)
  have n: "\<not> truthy (p_name row_b) \<and> \<not> truthy (p_name row_d) \<and>
      p_fetchedAt row_a \<le> p_fetchedAt row_d"
    by (simp add: row_a_def row_b_def row_d_def)
  from h l m n show ?thesis by blast
qed



text \<open>
  Claim C6. An EAN with no stored row makes the query answer empty, and
  \<open>load\<close> turns exactly that case into the 404 "Not Found" error; an EAN
  with at least one stored row yields page data and no error.
\<close>

theorem load_not_found_iff:
  assumes "query_answer tbl e (q e)"
  shows "if \<exists>p \<in> set tbl. p_ean p = e
         then \<exists>d. load q e = Inr d
         else q e = [] \<and> load q e = Inl (HttpError 404 ''Not Found'')"
  using query_answer_empty_iff [OF assms] by (auto simp: load_def Let_def)

theorem load_not_found_iff_witness:
  "query_answer history_table ''0000000'' (stable_engine history_table ''0000000'') \<and>
   stable_engine history_table ''0000000'' = [] \<and>
   load (stable_engine history_table) ''0000000'' = Inl (HttpError 404 ''Not Found'') \<and>
   query_answer history_table ''7790001'' (stable_engine history_table ''7790001'') \<and>
   (\<exists>d. load (stable_engine history_table) ''7790001'' = Inr d)"
proof -
  have h0: "query_answer history_table ''0000000'' (stable_engine history_table ''0000000'')"
    by (rule stable_engine_answer)
  have h1: "query_answer history_table ''7790001'' (stable_engine history_table ''7790001'')"
    by (rule stable_engine_answer)
  have n0: "\<not> (\<exists>p \<in> set history_table. p_ean p = ''0000000'')"
    by (simp add: history_table_def row_a_def row_b_def row_c_def row_d_def)
  have n1: "\<exists>p \<in> set history_table. p_ean p = ''7790001''"
    by (simp add: history_table_def row_a_def)
  from load_not_found_iff [of history_table "''0000000''" "stable_engine history_table", OF h0] n0
  have r0: "stable_engine history_table ''0000000'' = [] \<and>
      load (stable_engine history_table) ''0000000'' = Inl (HttpError 404 ''Not Found'')"
    by simp
  from load_not_found_iff [of history_table "''7790001''" "stable_engine history_table", OF h1] n1
  have r1: "\<exists>d. load (stable_engine history_table) ''7790001'' = Inr d" by simp
  from h0 h1 r0 r1 show ?thesis by blast
qed

section \<open>The row shape\<close>

text \<open>
  Claim C2. The table declaration lists six fields, \<open>id\<close>, \<open>ean\<close>,
  \<open>fetchedAt\<close>, \<open>precioCentavos\<close>, \<open>inStock\<close> and \<open>url\<close>; the field
  \<open>name\<close> that \<open>load\<close> reads is not among them.
\<close>

theorem precios_columns_fields:
  "map field precios_columns = [''id'', ''ean'', ''fetchedAt'', ''precioCentavos'', ''inStock'', ''url''] \<and>
   ''name'' \<notin> set (map field precios_columns)"
  by (simp add: precios_columns_def)

section \<open>The extractor\<close>

text \<open>
  Claim C3. When the parsed document has no \<open>product:retailer_item_id\<close>
  meta property, so that \<open>getMetaProp\<close> returns nothing, \<open>getDiaProduct\<close>
  throws the error with the message "No encontre el ean" (the spec's
  MissingIdentifier, "no EAN found") and returns no record.
\<close>

theorem getDiaProduct_no_ean:
  assumes "getMetaProp (parseHTML h) ''product:retailer_item_id'' = None"
  shows "getDiaProduct parseHTML h = Inl (JsError no_ean_message) \<and>
         (\<forall>p. getDiaProduct parseHTML h \<noteq> Inr p)"
  using assms by (simp add: getDiaProduct_def Let_def)

theorem getDiaProduct_no_ean_witness:
  "getMetaProp (parse_as no_ean_page (HtmlText ''<html></html>'')) ''product:retailer_item_id'' = None \<and>
   getDiaProduct (parse_as no_ean_page) (HtmlText ''<html></html>'') = Inl (JsError no_ean_message)"
proof -
  have h: "getMetaProp (parse_as no_ean_page (HtmlText ''<html></html>'')) ''product:retailer_item_id'' = None"
    by (simp add: parse_as_def no_ean_page_def getMetaProp_def)
  from getDiaProduct_no_ean [of "parse_as no_ean_page" "HtmlText ''<html></html>''", OF h] h
  show ?thesis by simp
qed

text \<open>
  Claim C4. For a page with the EAN meta \<open>7790001\<close>, the price meta
  \<open>199.90\<close> and a product JSON-LD whose first offer has the availability
  \<open>http://schema.org/InStock\<close>, \<open>getDiaProduct\<close> returns exactly the
  record with \<open>ean\<close> 7790001, \<open>precioCentavos\<close> 19990 and \<open>inStock\<close>
  true.
\<close>

theorem getDiaProduct_fixture:
  assumes "getMetaProp (parseHTML h) ''product:retailer_item_id'' = Some ''7790001''"
    and "price_meta (parseHTML h) = Some ''199.90''"
    and "product_ld (parseHTML h) = Payload ld"
    and "offers_path ld = Some (JArr (offer # rest))"
    and "get_prop (Some offer) ''availability'' = Inr (Some (JStr ''http://schema.org/InStock''))"
  shows "getDiaProduct parseHTML h =
           Inr \<lparr>ean = ''7790001'', precioCentavos = Some 19990, inStock = True\<rparr>"
proof -
  have t: "''7790001'' \<noteq> []" by simp
  have p: "priceFromMeta (parseHTML h) = Inr (Some 19990)"
    using assms(2) by (simp add: priceFromMeta_def fixture_parse_decimal)
  have a: "availability_in_stock ld = Inr True"
    using assms(5) by (simp add: availability_of_array [OF assms(4)])
  show ?thesis
    using getDiaProduct_at_access [of parseHTML h "''7790001''" "Some 19990" ld, OF assms(1) t p assms(3)] a
    by simp
qed

theorem getDiaProduct_fixture_witness:
  "getMetaProp (parse_as fixture_page (HtmlText '''')) ''product:retailer_item_id'' = Some ''7790001'' \<and>
   price_meta (parse_as fixture_page (HtmlText '''')) = Some ''199.90'' \<and>
   product_ld (parse_as fixture_page (HtmlText '''')) = Payload in_stock_ld \<and>
   offers_path in_stock_ld =
     Some (JArr (JObj [(''availability'', JStr ''http://schema.org/InStock'')] # [])) \<and>
   get_prop (Some (JObj [(''availability'', JStr ''http://schema.org/InStock'')])) ''availability'' =
     Inr (Some (JStr ''http://schema.org/InStock'')) \<and>
   getDiaProduct (parse_as fixture_page) (HtmlText '''') =
     Inr \<lparr>ean = ''7790001'', precioCentavos = Some 19990, inStock = True\<rparr>"
proof -
  have h1: "getMetaProp (parse_as fixture_page (HtmlText '''')) ''product:retailer_item_id'' = Some ''7790001''"
    by (simp add: parse_as_def fixture_page_def getMetaProp_def)
  have h2: "price_meta (parse_as fixture_page (HtmlText '''')) = Some ''199.90''"
    by (simp add: parse_as_def fixture_page_def)
  have h3: "product_ld (parse_as fixture_page (HtmlText '''')) = Payload in_stock_ld"
    by (simp add: parse_as_def fixture_page_def)
  have h4: "offers_path in_stock_ld =
     Some (JArr (JObj [(''availability'', JStr ''http://schema.org/InStock'')] # []))"
    by (simp add: in_stock_ld_def offers_path_def)
  have h5: "get_prop (Some (JObj [(''availability'', JStr ''http://schema.org/InStock'')])) ''availability'' =
     Inr (Some (JStr ''http://schema.org/InStock''))"
    by simp
  from getDiaProduct_fixture [of "parse_as fixture_page" "HtmlText ''''", OF h1 h2 h3 h4 h5]
    h1 h2 h3 h4 h5
  show ?thesis by blast
qed

text \<open>
  Claim C7, as amended. For every page of the retailer's known shape,
  \<open>getDiaProduct\<close> returns a record whose \<open>ean\<close> is a non-empty string.
  Its \<open>precioCentavos\<close> is absent when the page has no price meta, and
  otherwise is the price meta's amount \<open>m / 10 ^ k\<close> in minor units, passed
  on without a check of its sign: it is non-negative when the amount is,
  and in general exactly when the amount is at least \<open>-0.005\<close>.
\<close>

theorem getDiaProduct_known_shape_record:
  assumes "dia_known_shape (parseHTML h)"
  shows "\<exists>p. getDiaProduct parseHTML h = Inr p \<and> ean p \<noteq> [] \<and>
             (case price_meta (parseHTML h) of
                None \<Rightarrow> precioCentavos p = None
              | Some s \<Rightarrow>
                  (\<exists>m k c. parse_decimal s = Some (m, k) \<and> precioCentavos p = Some c \<and>
                     c = to_centavos (m, k) \<and> (0 \<le> m \<longrightarrow> 0 \<le> c) \<and>
                     (0 \<le> c \<longleftrightarrow> - (10 ^ k) \<le> 200 * m)))"
proof -
  let ?doc = "parseHTML h"
  from assms have t: "truthy (getMetaProp ?doc ''product:retailer_item_id'')"
    by (simp add: dia_known_shape_def)
  from truthy_Some [OF this] obtain e
    where e: "getMetaProp ?doc ''product:retailer_item_id'' = Some e" "e \<noteq> []" by blast
  from assms obtain ld where ld: "product_ld ?doc = Payload ld" "first_offer_is_object (offers_path ld)"
    by (cases "product_ld ?doc") (simp_all add: dia_known_shape_def)
  from first_offer_object_available [OF ld(2)] obtain kvs xs
    where arr: "offers_path ld = Some (JArr (JObj kvs # xs))" by blast
  have "\<exists>s. availability_in_stock ld = Inr s"
    by (simp add: availability_of_array [OF arr])
  then obtain s where s: "availability_in_stock ld = Inr s" by blast
  show ?thesis
  proof (cases "price_meta ?doc")
    case None
    then have pc: "priceFromMeta ?doc = Inr None" by (simp add: priceFromMeta_def)
    have "getDiaProduct parseHTML h = Inr \<lparr>ean = e, precioCentavos = None, inStock = s\<rparr>"
      using getDiaProduct_at_access [of parseHTML h e None ld, OF e pc ld(1)] s by simp
    with e(2) None show ?thesis by simp
  next
    case (Some str)
    with assms obtain m k where d: "parse_decimal str = Some (m, k)"
      by (cases "parse_decimal str") (auto simp: dia_known_shape_def)
    with Some have pc: "priceFromMeta ?doc = Inr (Some (to_centavos (m, k)))"
      by (simp add: priceFromMeta_def)
    have g: "getDiaProduct parseHTML h =
        Inr \<lparr>ean = e, precioCentavos = Some (to_centavos (m, k)), inStock = s\<rparr>"
      using getDiaProduct_at_access [of parseHTML h e "Some (to_centavos (m, k))" ld, OF e pc ld(1)] s
      by simp
    have n: "0 \<le> m \<longrightarrow> 0 \<le> to_centavos (m, k)"
      using to_centavos_nonneg [of m k] by blast
    have i: "0 \<le> to_centavos (m, k) \<longleftrightarrow> - (10 ^ k) \<le> 200 * m"
      by (rule to_centavos_nonneg_iff)
    from g e(2) Some d n i show ?thesis by simp
  qed
qed

theorem getDiaProduct_known_shape_record_witness:
  "dia_known_shape (parse_as fixture_page (HtmlText '''')) \<and>
   price_meta (parse_as fixture_page (HtmlText '''')) = Some ''199.90'' \<and>
   parse_decimal ''199.90'' = Some (19990, 2) \<and>
   (\<exists>p. getDiaProduct (parse_as fixture_page) (HtmlText '''') = Inr p \<and> ean p \<noteq> [] \<and>
        precioCentavos p = Some 19990)"
proof -
  have h: "dia_known_shape (parse_as fixture_page (HtmlText ''''))"
    by (simp add: dia_known_shape_def parse_as_def fixture_page_def getMetaProp_def
        fixture_parse_decimal in_stock_ld_def offers_path_def)
  have m: "price_meta (parse_as fixture_page (HtmlText '''')) = Some ''199.90''"
    by (simp add: parse_as_def fixture_page_def)
  from getDiaProduct_known_shape_record [of "parse_as fixture_page" "HtmlText ''''", OF h]
  have "\<exists>p. getDiaProduct (parse_as fixture_page) (HtmlText '''') = Inr p \<and> ean p \<noteq> [] \<and>
        precioCentavos p = Some 19990"
    by (auto simp: m fixture_parse_decimal)
  with h m fixture_parse_decimal show ?thesis by blast
qed

text \<open>
  Claim C7 as stated fails: a page of the known shape whose price meta is
  \<open>-5.00\<close> yields a record with \<open>precioCentavos\<close> \<open>-500\<close>; the extractor
  hands on what \<open>priceFromMeta\<close> returns.
\<close>

theorem negative_price_counterexample:
  "dia_known_shape (parse_as negative_price_page (HtmlText '''')) \<and>
   getDiaProduct (parse_as negative_price_page) (HtmlText '''') =
     Inr \<lparr>ean = ''7790001'', precioCentavos = Some (- 500), inStock = True\<rparr> \<and>
   \<not> (0::int) \<le> - 500"
  by (simp add: dia_known_shape_def getDiaProduct_def Let_def parse_as_def negative_price_page_def
      getMetaProp_def priceFromMeta_def negative_parse_decimal getProductJsonLd_def in_stock_ld_def
      availability_in_stock_def offers_path_def)

text \<open>
  Claim C10, as amended. Once the EAN is there, the price has been read and
  the JSON-LD has been parsed, the unguarded read of
  \<open>ld.offers.offers[0].availability\<close> decides the result. If the path
  \<open>offers.offers\<close> is missing, null or an empty array, the extractor throws
  a TypeError; a TypeError is the only error it can still throw. It returns
  a record exactly when \<open>offers.offers[0]\<close> exists and is not null, which
  holds for a non-empty array whose first element is not null.
\<close>

theorem getDiaProduct_offers_access:
  assumes "truthy (getMetaProp (parseHTML h) ''product:retailer_item_id'')"
    and "priceFromMeta (parseHTML h) = Inr pc"
    and "product_ld (parseHTML h) = Payload ld"
  shows "(offers_path ld = None \<or> offers_path ld = Some JNull \<or> offers_path ld = Some (JArr [])
            \<longrightarrow> getDiaProduct parseHTML h = Inl TypeError) \<and>
         (\<forall>err. getDiaProduct parseHTML h = Inl err \<longrightarrow> err = TypeError) \<and>
         ((\<exists>p. getDiaProduct parseHTML h = Inr p) \<longleftrightarrow>
            (\<exists>v. element0 (offers_path ld) = Inr (Some v) \<and> v \<noteq> JNull)) \<and>
         (\<forall>x xs. offers_path ld = Some (JArr (x # xs)) \<and> x \<noteq> JNull
            \<longrightarrow> (\<exists>p. getDiaProduct parseHTML h = Inr p))"
proof -
  from truthy_Some [OF assms(1)] obtain e
    where e: "getMetaProp (parseHTML h) ''product:retailer_item_id'' = Some e" "e \<noteq> []"
    by blast
  note G = getDiaProduct_at_access [of parseHTML h e pc ld, OF e assms(2) assms(3)]
  have A: "offers_path ld = None \<or> offers_path ld = Some JNull \<or> offers_path ld = Some (JArr [])
            \<longrightarrow> getDiaProduct parseHTML h = Inl TypeError"
    by (auto simp: G availability_by_path)
  have B: "\<forall>err. getDiaProduct parseHTML h = Inl err \<longrightarrow> err = TypeError"
    by (auto simp: G split: sum.splits dest: availability_error)
  have C: "(\<exists>p. getDiaProduct parseHTML h = Inr p) \<longleftrightarrow>
            (\<exists>v. element0 (offers_path ld) = Inr (Some v) \<and> v \<noteq> JNull)"
  proof -
    have "(\<exists>p. getDiaProduct parseHTML h = Inr p) \<longleftrightarrow> (\<exists>s. availability_in_stock ld = Inr s)"
      by (auto simp: G split: sum.splits)
    then show ?thesis by (simp add: availability_ok_iff)
  qed
  have D: "\<forall>x xs. offers_path ld = Some (JArr (x # xs)) \<and> x \<noteq> JNull
            \<longrightarrow> (\<exists>p. getDiaProduct parseHTML h = Inr p)"
    using C by auto
  from A B C D show ?thesis by blast
qed

theorem getDiaProduct_offers_access_witness:
  "truthy (getMetaProp (parse_as no_offers_page (HtmlText '''')) ''product:retailer_item_id'') \<and>
   priceFromMeta (parse_as no_offers_page (HtmlText '''')) = Inr None \<and>
   product_ld (parse_as no_offers_page (HtmlText '''')) = Payload (JObj [(''offers'', JObj [(''offers'', JArr [])])]) \<and>
   offers_path (JObj [(''offers'', JObj [(''offers'', JArr [])])]) = Some (JArr []) \<and>
   getDiaProduct (parse_as no_offers_page) (HtmlText '''') = Inl TypeError"
proof -
  have h1: "truthy (getMetaProp (parse_as no_offers_page (HtmlText '''')) ''product:retailer_item_id'')"
    by (simp add: parse_as_def no_offers_page_def getMetaProp_def)
  have h2: "priceFromMeta (parse_as no_offers_page (HtmlText '''')) = Inr None"
    by (simp add: parse_as_def no_offers_page_def priceFromMeta_def)
  have h3: "product_ld (parse_as no_offers_page (HtmlText '''')) = Payload (JObj [(''offers'', JObj [(''offers'', JArr [])])])"
    by (simp add: parse_as_def no_offers_page_def)
  have h4: "offers_path (JObj [(''offers'', JObj [(''offers'', JArr [])])]) = Some (JArr [])"
    by (simp add: offers_path_def)
  from getDiaProduct_offers_access [of "parse_as no_offers_page" "HtmlText ''''", OF h1 h2 h3] h4
  have "getDiaProduct (parse_as no_offers_page) (HtmlText '''') = Inl TypeError" by blast
  with h1 h2 h3 h4 show ?thesis by blast
qed

text \<open>
  Claim C10 as stated fails in its last part, that the read is safe only if
  \<open>offers.offers\<close> is a non-empty array: when \<open>offers.offers\<close> is the
  string \<open>"x"\<close>, \<open>"x"[0]\<close> is \<open>"x"\<close>, its \<open>availability\<close> is
  \<open>undefined\<close>, and the extractor returns a record with \<open>inStock\<close> false.
\<close>

theorem string_offers_counterexample:
  "getDiaProduct (parse_as string_offers_page) (HtmlText '''') =
     Inr \<lparr>ean = ''7790001'', precioCentavos = Some 19990, inStock = False\<rparr> \<and>
   getProductJsonLd (parse_as string_offers_page (HtmlText '''')) = Inr string_offers_ld \<and>
   offers_path string_offers_ld = Some (JStr ''x'') \<and>
   \<not> is_nonempty_array (offers_path string_offers_ld)"
  by (simp add: getDiaProduct_def Let_def parse_as_def string_offers_page_def string_offers_ld_def
      getMetaProp_def priceFromMeta_def parse_decimal_def is_digit_def digits_value_def
      digit_value_def getProductJsonLd_def availability_in_stock_def offers_path_def)

section \<open>The price in minor units\<close>

text \<open>
  Claim C8. \<open>priceFromMeta\<close> turns the price meta \<open>12.34\<close> into 1234 and
  \<open>0.00\<close> into 0; a value that is not a valid decimal number fails with
  \<open>PriceParseError\<close>; and for every valid decimal \<open>m / 10 ^ k\<close> the result
  \<open>c\<close> is an integer nearest to a hundred times the amount, that is
  \<open>|100 * m / 10 ^ k - c| \<le> 1/2\<close>.
\<close>

theorem priceFromMeta_minor_units:
  "priceFromMeta (doc\<lparr>price_meta := Some ''12.34''\<rparr>) = Inr (Some 1234) \<and>
   priceFromMeta (doc\<lparr>price_meta := Some ''0.00''\<rparr>) = Inr (Some 0) \<and>
   (\<forall>s. parse_decimal s = None \<longrightarrow>
        priceFromMeta (doc\<lparr>price_meta := Some s\<rparr>) = Inl PriceParseError) \<and>
   (\<forall>s m k. parse_decimal s = Some (m, k) \<longrightarrow>
        (\<exists>c. priceFromMeta (doc\<lparr>price_meta := Some s\<rparr>) = Inr (Some c) \<and>
             2 * \<bar>100 * m - c * 10 ^ k\<bar> \<le> 10 ^ k))"
proof -
  have a: "parse_decimal ''12.34'' = Some (1234, 2)"
    by (simp add: parse_decimal_def is_digit_def digits_value_def digit_value_def)
  have b: "parse_decimal ''0.00'' = Some (0, 2)"
    by (simp add: parse_decimal_def is_digit_def digits_value_def digit_value_def)
  have 1: "priceFromMeta (doc\<lparr>price_meta := Some ''12.34''\<rparr>) = Inr (Some 1234)"
    by (simp add: priceFromMeta_def a)
  have 2: "priceFromMeta (doc\<lparr>price_meta := Some ''0.00''\<rparr>) = Inr (Some 0)"
    by (simp add: priceFromMeta_def b)
  have 3: "\<forall>s. parse_decimal s = None \<longrightarrow>
        priceFromMeta (doc\<lparr>price_meta := Some s\<rparr>) = Inl PriceParseError"
    by (simp add: priceFromMeta_def)
  have 4: "\<forall>s m k. parse_decimal s = Some (m, k) \<longrightarrow>
        (\<exists>c. priceFromMeta (doc\<lparr>price_meta := Some s\<rparr>) = Inr (Some c) \<and>
             2 * \<bar>100 * m - c * 10 ^ k\<bar> \<le> 10 ^ k)"
    using to_centavos_nearest by (simp add: priceFromMeta_def)
  from 1 2 3 4 show ?thesis by blast
qed

theorem priceFromMeta_minor_units_witness:
  "parse_decimal ''abc'' = None \<and>
   priceFromMeta (fixture_page\<lparr>price_meta := Some ''abc''\<rparr>) = Inl PriceParseError \<and>
   parse_decimal ''12,34'' = None \<and>
   priceFromMeta (fixture_page\<lparr>price_meta := Some ''12,34''\<rparr>) = Inl PriceParseError \<and>
   parse_decimal ''0.005'' = Some (5, 3) \<and>
   priceFromMeta (fixture_page\<lparr>price_meta := Some ''0.005''\<rparr>) = Inr (Some 1) \<and>
   priceFromMeta (fixture_page\<lparr>price_meta := Some ''12.34''\<rparr>) = Inr (Some 1234) \<and>
   priceFromMeta (fixture_page\<lparr>price_meta := Some ''0.00''\<rparr>) = Inr (Some 0)"
proof -
  have a: "parse_decimal ''abc'' = None"
    by (simp add: parse_decimal_def is_digit_def)
  have b: "parse_decimal ''12,34'' = None"
    by (simp add: parse_decimal_def is_digit_def)
  have c: "parse_decimal ''0.005'' = Some (5, 3)"
    by (simp add: parse_decimal_def is_digit_def digits_value_def digit_value_def)
  have d: "priceFromMeta (fixture_page\<lparr>price_meta := Some ''0.005''\<rparr>) = Inr (Some 1)"
    by (simp add: priceFromMeta_def c)
  from priceFromMeta_minor_units [of fixture_page] a b c d show ?thesis by blast
qed

end
